theory Spec2Isabelle
  imports Complex_Main
begin

section \<open>NumPy floating-point values\<close>

text \<open>
  The arrays of \<open>index_peaks\<close> hold IEEE-754 doubles.  A double is modelled as a real
  number or one of the three special values; rounding, overflow of finite operations and
  the sign of zero are not modelled.  The sign of a zero divisor only decides the sign of
  the infinity that a division returns, and \<open>np.absolute\<close> removes it again.  NumPy's
  default error state reports a division by zero as a \<open>RuntimeWarning\<close> and goes on
  with \<open>inf\<close> or \<open>nan\<close>; the operations below return those values.
\<close>

datatype npfloat = Fin real | PInf | NInf | NaN

fun np_sub :: "npfloat \<Rightarrow> npfloat \<Rightarrow> npfloat" where
  "np_sub NaN y = NaN"
| "np_sub x NaN = NaN"
| "np_sub (Fin a) (Fin b) = Fin (a - b)"
| "np_sub (Fin a) PInf = NInf"
| "np_sub (Fin a) NInf = PInf"
| "np_sub PInf PInf = NaN"
| "np_sub PInf y = PInf"
| "np_sub NInf NInf = NaN"
| "np_sub NInf y = NInf"

fun np_div :: "npfloat \<Rightarrow> npfloat \<Rightarrow> npfloat" where
  "np_div NaN y = NaN"
| "np_div x NaN = NaN"
| "np_div (Fin a) (Fin b) =
     (if b \<noteq> 0 then Fin (a / b)
      else if a = 0 then NaN
      else if 0 < a then PInf else NInf)"
| "np_div (Fin a) y = Fin 0"
| "np_div PInf (Fin b) = (if 0 \<le> b then PInf else NInf)"
| "np_div NInf (Fin b) = (if 0 \<le> b then NInf else PInf)"
| "np_div x y = NaN"

fun np_mul :: "npfloat \<Rightarrow> npfloat \<Rightarrow> npfloat" where
  "np_mul NaN y = NaN"
| "np_mul x NaN = NaN"
| "np_mul (Fin a) (Fin b) = Fin (a * b)"
| "np_mul (Fin a) PInf = (if a = 0 then NaN else if 0 < a then PInf else NInf)"
| "np_mul (Fin a) NInf = (if a = 0 then NaN else if 0 < a then NInf else PInf)"
| "np_mul PInf (Fin b) = (if b = 0 then NaN else if 0 < b then PInf else NInf)"
| "np_mul NInf (Fin b) = (if b = 0 then NaN else if 0 < b then NInf else PInf)"
| "np_mul PInf PInf = PInf"
| "np_mul PInf NInf = NInf"
| "np_mul NInf PInf = NInf"
| "np_mul NInf NInf = PInf"

fun np_absolute :: "npfloat \<Rightarrow> npfloat" where
  "np_absolute (Fin a) = Fin \<bar>a\<bar>"
| "np_absolute PInf = PInf"
| "np_absolute NInf = PInf"
| "np_absolute NaN = NaN"

text \<open>Comparisons: every comparison with \<open>nan\<close> is false.\<close>

fun np_less :: "npfloat \<Rightarrow> npfloat \<Rightarrow> bool" where
  "np_less NaN y = False"
| "np_less x NaN = False"
| "np_less (Fin a) (Fin b) = (a < b)"
| "np_less (Fin a) PInf = True"
| "np_less (Fin a) NInf = False"
| "np_less PInf y = False"
| "np_less NInf NInf = False"
| "np_less NInf y = True"

fun np_le :: "npfloat \<Rightarrow> npfloat \<Rightarrow> bool" where
  "np_le NaN y = False"
| "np_le x NaN = False"
| "np_le (Fin a) (Fin b) = (a \<le> b)"
| "np_le (Fin a) PInf = True"
| "np_le (Fin a) NInf = False"
| "np_le PInf PInf = True"
| "np_le PInf y = False"
| "np_le NInf y = True"

fun is_finite :: "npfloat \<Rightarrow> bool" where
  "is_finite (Fin a) = True"
| "is_finite x = False"

section \<open>ProfileIndexationGenerator.index_peaks\<close>

datatype error = IndexError | NameError | ConfigurationError

text \<open>The simulation object: its \<open>magnitudes\<close> and \<open>hkls\<close> attributes.\<close>

record 'h simulation =
  magnitudes :: "npfloat list"
  hkls :: "'h list"

text \<open>
  One cell of the object array \<open>indexation\<close>: \<open>np.zeros(n, dtype=object)\<close> fills it with
  the integer 0, and the loop stores \<open>(mags.data[i], (hkls, diffs))\<close>.  The two calls
  \<open>np.array((x, y))\<close> of lines 171 and 172 are taken as pairing; how NumPy packs a ragged
  tuple into an array is not modelled.
\<close>

datatype 'h entry = Zero | Entry npfloat "'h list" "npfloat list"

text \<open>
  Line 166: \<open>diff = np.absolute((sim_mags - mags.data[i]) / mags.data[i] * 100)\<close>,
  broadcast over the library magnitudes.
\<close>

definition deviation :: "npfloat \<Rightarrow> npfloat \<Rightarrow> npfloat" where
  "deviation s m = np_absolute (np_mul (np_div (np_sub s m) m) (Fin 100))"

definition deviations :: "npfloat list \<Rightarrow> npfloat \<Rightarrow> npfloat list" where
  "deviations sim_mags m = map (\<lambda>s. deviation s m) sim_mags"

text \<open>\<open>np.where(diff < tolerance)\<close>: the indices, ascending, at which the test holds.\<close>

definition np_where :: "npfloat list \<Rightarrow> npfloat \<Rightarrow> nat list" where
  "np_where diff tolerance = filter (\<lambda>j. np_less (diff ! j) tolerance) [0..<length diff]"

text \<open>Indexing an array with an index array; an index out of bounds raises.\<close>

fun np_take :: "'a list \<Rightarrow> nat list \<Rightarrow> error + 'a list" where
  "np_take xs [] = Inr []"
| "np_take xs (j # js) =
     (if j < length xs
      then (case np_take xs js of Inl e \<Rightarrow> Inl e | Inr ys \<Rightarrow> Inr (xs ! j # ys))
      else Inl IndexError)"

text \<open>The body of the loop over \<open>np.arange(len(mags))\<close>, lines 165 to 172.\<close>

fun index_loop ::
  "npfloat list \<Rightarrow> 'h simulation \<Rightarrow> npfloat \<Rightarrow> nat list \<Rightarrow> 'h entry list
     \<Rightarrow> error + 'h entry list" where
  "index_loop mags sim tolerance [] indexation = Inr indexation"
| "index_loop mags sim tolerance (i # rest) indexation =
     (let diff = deviations (magnitudes sim) (mags ! i);
          idx = np_where diff tolerance
      in case np_take (hkls sim) idx of
           Inl e \<Rightarrow> Inl e
         | Inr hs \<Rightarrow>
             (case np_take diff idx of
                Inl e \<Rightarrow> Inl e
              | Inr diffs' \<Rightarrow>
                  index_loop mags sim tolerance rest
                    (indexation[i := Entry (mags ! i) hs diffs'])))"

definition index_peaks ::
  "npfloat list \<Rightarrow> 'h simulation \<Rightarrow> npfloat \<Rightarrow> error + 'h entry list" where
  "index_peaks mags sim tolerance =
     index_loop mags sim tolerance [0..<length mags] (replicate (length mags) Zero)"

text \<open>
  The deviation as the specification words it, \<open>|sim_mag - m| / m * 100\<close>, and the
  candidates it retains, for comparison with the code.
\<close>

definition spec_deviation :: "npfloat \<Rightarrow> npfloat \<Rightarrow> npfloat" where
  "spec_deviation s m = np_mul (np_div (np_absolute (np_sub s m)) m) (Fin 100)"

definition spec_candidates :: "'h simulation \<Rightarrow> npfloat \<Rightarrow> npfloat \<Rightarrow> ('h \<times> npfloat) list" where
  "spec_candidates sim m tolerance =
     filter (\<lambda>(h, d). np_less d tolerance)
       (map (\<lambda>(h, s). (h, spec_deviation s m)) (zip (hkls sim) (magnitudes sim)))"

text \<open>The set of (hkl, deviation) candidates stored in a cell.\<close>

fun candidates :: "'h entry \<Rightarrow> ('h \<times> npfloat) set" where
  "candidates Zero = {}"
| "candidates (Entry m hs ds) = set (zip hs ds)"

text \<open>What one pass of the loop stores for the magnitude \<open>m\<close>, when no index is out of bounds.\<close>

definition peak_entry :: "'h simulation \<Rightarrow> npfloat \<Rightarrow> npfloat \<Rightarrow> 'h entry" where
  "peak_entry sim tolerance m =
     (let diff = deviations (magnitudes sim) m; idx = np_where diff tolerance
      in Entry m (map ((!) (hkls sim)) idx) (map ((!) diff) idx))"

section \<open>Signals, masks and results\<close>

text \<open>
  A signal as the generators use it: the navigation shape, the calibration of the
  navigation axes and one datum per navigation position, in navigation order.
\<close>

record axis =
  ax_name :: string
  ax_scale :: real
  ax_offset :: real
  ax_units :: string

record 'd signal =
  navigation_shape :: "nat list"
  navigation_axes :: "axis list"
  sig_data :: "'d list"

text \<open>An array: its shape and its items in row-major order.\<close>

record ndarray =
  shape :: "nat list"
  items :: "real list"

definition np_ones :: "nat list \<Rightarrow> ndarray" where
  "np_ones shp = \<lparr>shape = shp, items = replicate (prod_list shp) 1\<rparr>"

text \<open>Indexing a tuple: \<open>sig_shape[i]\<close> raises \<open>IndexError\<close> out of range.\<close>

definition tuple_index :: "'a list \<Rightarrow> nat \<Rightarrow> error + 'a" where
  "tuple_index xs i = (if i < length xs then Inr (xs ! i) else Inl IndexError)"

text \<open>
  Lines 91 to 94 of \<open>correlate\<close>: the mask built when \<open>mask is None\<close>,
  \<open>np.ones((sig_shape[0], sig_shape[1], 1))\<close>.
\<close>

definition default_mask :: "nat list \<Rightarrow> error + ndarray" where
  "default_mask sig_shape =
     (case tuple_index sig_shape 0 of
        Inl e \<Rightarrow> Inl e
      | Inr s0 \<Rightarrow>
          (case tuple_index sig_shape 1 of
             Inl e \<Rightarrow> Inl e
           | Inr s1 \<Rightarrow> Inr (np_ones [s0, s1, 1])))"

text \<open>The result signals: the navigation axes and one result per position.\<close>

record 'r results =
  res_axes :: "axis list"
  res_data :: "'r list"

definition default_axis :: axis where
  "default_axis = \<lparr>ax_name = ''<undefined>'', ax_scale = 1, ax_offset = 0, ax_units = ''<undefined>''\<rparr>"

text \<open>
  \<open>TemplateMatchingResults(matches)\<close> builds a new signal from the data of \<open>matches\<close>;
  its axes are uncalibrated.
\<close>

definition new_results :: "'r signal \<Rightarrow> 'r results" where
  "new_results matches =
     \<lparr>res_axes = replicate (length (navigation_axes matches)) default_axis,
      res_data = sig_data matches\<rparr>"

text \<open>
  Modelled from the spec: the copy of one axis made by \<open>transfer_navigation_axes\<close>, which is
  not among the sources; the four calibration fields "scale, offset, units, names" are
  copied.
\<close>

definition copy_calibration :: "axis \<Rightarrow> axis \<Rightarrow> axis" where
  "copy_calibration ax_new ax_old =
     ax_new\<lparr>ax_scale := ax_scale ax_old, ax_offset := ax_offset ax_old,
            ax_units := ax_units ax_old, ax_name := ax_name ax_old\<rparr>"

text \<open>
  Modelled from the spec: \<open>transfer_navigation_axes\<close> of \<open>pyxem.utils.sim_utils\<close> is not among
  the sources.  "Copy navigation axis calibration (scale, offset, units, names) from the
  input signal into ResultsMap unchanged."
\<close>

definition transfer_navigation_axes :: "'r results \<Rightarrow> 'd signal \<Rightarrow> 'r results" where
  "transfer_navigation_axes new_signal old_signal =
     new_signal\<lparr>res_axes := map2 copy_calibration (res_axes new_signal) (navigation_axes old_signal)\<rparr>"

text \<open>
  \<open>signal.map(function, ..., inplace=False)\<close> with no iterating argument: the function is
  applied at every navigation position; an exception at a position ends the call.  The
  result keeps the navigation shape and axes.
\<close>

fun collect :: "(error + 'r) list \<Rightarrow> error + 'r list" where
  "collect [] = Inr []"
| "collect (x # xs) =
     (case x of
        Inl e \<Rightarrow> Inl e
      | Inr r \<Rightarrow> (case collect xs of Inl e \<Rightarrow> Inl e | Inr rs \<Rightarrow> Inr (r # rs)))"

definition signal_map :: "('d \<Rightarrow> error + 'r) \<Rightarrow> 'd signal \<Rightarrow> error + 'r signal" where
  "signal_map f s =
     (case collect (map f (sig_data s)) of
        Inl e \<Rightarrow> Inl e
      | Inr rs \<Rightarrow>
          Inr \<lparr>navigation_shape = navigation_shape s, navigation_axes = navigation_axes s,
               sig_data = rs\<rparr>)"

text \<open>
  Modelled from the spec: the check of the mask against the navigation grid, "mask shape ==
  navigation shape when provided", a mismatch being a configuration error.  Otherwise this
  is \<open>signal.map\<close> with the mask as an iterating argument: each position receives its own
  cell of the mask.
\<close>

definition signal_map_mask ::
  "('d \<Rightarrow> real \<Rightarrow> error + 'r) \<Rightarrow> 'd signal \<Rightarrow> ndarray \<Rightarrow> error + 'r signal" where
  "signal_map_mask f s mask' =
     (if length (items mask') \<noteq> length (sig_data s) then Inl ConfigurationError
      else case collect (map2 f (sig_data s) (items mask')) of
             Inl e \<Rightarrow> Inl e
           | Inr rs \<Rightarrow>
               Inr \<lparr>navigation_shape = navigation_shape s, navigation_axes = navigation_axes s,
                    sig_data = rs\<rparr>)"

section \<open>IndexationGenerator.correlate\<close>

text \<open>One row of a template matching result: \<open>(phase_index, z, x, z, score)\<close>.\<close>

record match_record =
  phase_index :: nat
  euler_z1 :: real
  euler_x :: real
  euler_z2 :: real
  score :: real

definition zero_record :: match_record where
  "zero_record = \<lparr>phase_index = 0, euler_z1 = 0, euler_x = 0, euler_z2 = 0, score = 0\<rparr>"

text \<open>
  A template library: for every phase, in key order, its entries (three Euler angles and
  the simulated pattern).
\<close>

type_synonym 'p library = "((real \<times> real \<times> real) \<times> 'p) list list"

definition library_entries :: "'p library \<Rightarrow> (nat \<times> (real \<times> real \<times> real) \<times> 'p) list" where
  "library_entries lib =
     concat (map (\<lambda>(i, entries). map (\<lambda>e. (i, e)) entries) (zip [0..<length lib] lib))"

text \<open>
  Modelled from the spec: the record of one library entry, "(phase_index, euler_z, euler_x,
  euler_z, score)", for \<open>correlate_library\<close>, which is not among the sources.  The
  correlation measure is a parameter.
\<close>

definition score_entry ::
  "('i \<Rightarrow> 'p \<Rightarrow> real) \<Rightarrow> 'i \<Rightarrow> nat \<times> (real \<times> real \<times> real) \<times> 'p \<Rightarrow> match_record" where
  "score_entry correlation img e =
     (case e of (i, (z1, x, z2), pattern) \<Rightarrow>
        \<lparr>phase_index = i, euler_z1 = z1, euler_x = x, euler_z2 = z2,
         score = correlation img pattern\<rparr>)"

text \<open>
  Modelled from the spec: "padded with zero-records to reach \<open>n_largest\<close>", for
  \<open>correlate_library\<close>, which is not among the sources.
\<close>

definition pad_records :: "nat \<Rightarrow> match_record list \<Rightarrow> match_record list" where
  "pad_records n rs = rs @ replicate (n - length rs) zero_record"

text \<open>
  Modelled from the spec: \<open>correlate_library\<close> of \<open>pyxem.utils.indexation_utils\<close> is not
  among the sources.  Section 4.1: an empty library and \<open>n_largest < 1\<close> are errors; a
  position that the mask disables gets \<open>n_largest\<close> zero-filled records "without computing
  correlations"; otherwise every library entry is scored, the scores are sorted
  descending by a stable sort, the \<open>n_largest\<close> best are kept and padded with zero records
  up to \<open>n_largest\<close>.  The correlation measure is a parameter.  The second component of the
  result counts the correlations computed at the position.
\<close>

definition correlate_library ::
  "('i \<Rightarrow> 'p \<Rightarrow> real) \<Rightarrow> 'p library \<Rightarrow> int \<Rightarrow> string list \<Rightarrow> 'i \<Rightarrow> real
     \<Rightarrow> error + (match_record list \<times> nat)" where
  "correlate_library correlation lib n_largest keys img mask' =
     (if library_entries lib = [] \<or> n_largest < 1 then Inl ConfigurationError
      else if mask' = 0 then Inr (replicate (nat n_largest) zero_record, 0)
      else
        let scored = map (score_entry correlation img) (library_entries lib);
            ranked = sort_key (\<lambda>r. - score r) scored
        in Inr (pad_records (nat n_largest) (take (nat n_largest) ranked), length scored))"

text \<open>Lines 89 to 107.\<close>

definition correlate ::
  "('i \<Rightarrow> 'p \<Rightarrow> real) \<Rightarrow> 'i signal \<Rightarrow> 'p library \<Rightarrow> int \<Rightarrow> string list \<Rightarrow> ndarray option
     \<Rightarrow> error + (match_record list \<times> nat) results" where
  "correlate correlation sgnl lib n_largest keys mask' =
     (case (case mask' of None \<Rightarrow> default_mask (navigation_shape sgnl) | Some m \<Rightarrow> Inr m) of
        Inl e \<Rightarrow> Inl e
      | Inr m \<Rightarrow>
          (case signal_map_mask (correlate_library correlation lib n_largest keys) sgnl m of
             Inl e \<Rightarrow> Inl e
           | Inr matches \<Rightarrow> Inr (transfer_navigation_axes (new_results matches) sgnl)))"

section \<open>VectorIndexationGenerator.index_vectors\<close>

text \<open>
  The names bound in the module \<open>indexation_generator\<close>: its imports (lines 22 to 35) and
  its three classes.  A global name that is neither bound here nor a builtin raises
  \<open>NameError\<close> when it is evaluated.
\<close>

definition module_globals :: "string list" where
  "module_globals =
     [''np'', ''hs'', ''acos'', ''cos'', ''sin'', ''pi'', ''radians'', ''degrees'', ''itertools'',
      ''TemplateMatchingResults'', ''transfer_navigation_axes'', ''correlate_library'',
      ''index_magnitudes'', ''match_vectors'', ''IndexationGenerator'',
      ''ProfileIndexationGenerator'', ''VectorIndexationGenerator'']"

definition load_global :: "string \<Rightarrow> error + unit" where
  "load_global name = (if name \<in> set module_globals then Inr () else Inl NameError)"

text \<open>
  Lines 227 to 244.  \<open>match_vectors\<close> is not among the sources; the matcher, with the
  library, the thresholds and the keys already given to it, is the parameter
  \<open>match_vectors\<close>.  Line 239 evaluates the name \<open>VectorMatchingResults\<close>.
\<close>

definition index_vectors ::
  "('v \<Rightarrow> error + 'r) \<Rightarrow> 'v signal \<Rightarrow> error + 'r results" where
  "index_vectors match_vectors vectors =
     (case signal_map match_vectors vectors of
        Inl e \<Rightarrow> Inl e
      | Inr indexation \<Rightarrow>
          (case load_global ''VectorMatchingResults'' of
             Inl e \<Rightarrow> Inl e
           | Inr u \<Rightarrow> Inr (transfer_navigation_axes (new_results indexation) vectors)))"

section \<open>Properties of index_peaks\<close>

lemma np_take_in_range:
  "\<forall>j\<in>set js. j < length xs \<Longrightarrow> np_take xs js = Inr (map ((!) xs) js)"
  by (induction js) auto

lemma np_where_bound: "j \<in> set (np_where diff tolerance) \<Longrightarrow> j < length diff"
  by (simp add: np_where_def)

lemma length_deviations [simp]: "length (deviations ms m) = length ms"
  by (simp add: deviations_def)

lemma index_loop_fold:
  assumes "\<forall>i\<in>set is. \<forall>j\<in>set (np_where (deviations (magnitudes sim) (mags ! i)) tolerance).
             j < length (hkls sim)"
  shows "index_loop mags sim tolerance is indexation =
     Inr (fold (\<lambda>i acc. acc[i := peak_entry sim tolerance (mags ! i)]) is indexation)"
  using assms
proof (induction "is" arbitrary: indexation)
  case Nil
  show ?case by simp
next
  case (Cons i rest)
  let ?diff = "deviations (magnitudes sim) (mags ! i)"
  let ?idx = "np_where ?diff tolerance"
  have b: "\<forall>j\<in>set ?idx. j < length ?diff"
    using np_where_bound by blast
  have h: "np_take (hkls sim) ?idx = Inr (map ((!) (hkls sim)) ?idx)"
    using Cons.prems by (intro np_take_in_range) simp
  have d: "np_take ?diff ?idx = Inr (map ((!) ?diff) ?idx)"
    using b by (intro np_take_in_range) 
  have r: "index_loop mags sim tolerance rest ys =
     Inr (fold (\<lambda>i acc. acc[i := peak_entry sim tolerance (mags ! i)]) rest ys)" for ys
    using Cons.prems by (intro Cons.IH) simp
  show ?case
    by (simp add: Let_def h d r peak_entry_def)
qed

lemma fold_update_upt:
  "k \<le> length ys \<Longrightarrow>
   fold (\<lambda>i acc. acc[i := g i]) [0..<k] ys = map g [0..<k] @ drop k ys"
proof (induction k)
  case 0
  show ?case by simp
next
  case (Suc k)
  then have "k < length ys" by simp
  then have "(map g [0..<k] @ drop k ys)[k := g k] = map g [0..<k] @ (g k # drop (Suc k) ys)"
    by (simp add: list_update_append Cons_nth_drop_Suc [symmetric])
  with Suc show ?case by simp
qed

lemma index_peaks_entries_gen:
  assumes "\<forall>m\<in>set mags. \<forall>j\<in>set (np_where (deviations (magnitudes sim) m) tolerance).
             j < length (hkls sim)"
  shows "index_peaks mags sim tolerance = Inr (map (peak_entry sim tolerance) mags)"
proof -
  have "fold (\<lambda>i acc. acc[i := peak_entry sim tolerance (mags ! i)]) [0..<length mags]
          (replicate (length mags) Zero)
        = map (\<lambda>i. peak_entry sim tolerance (mags ! i)) [0..<length mags]"
    by (simp add: fold_update_upt)
  also have "\<dots> = map (peak_entry sim tolerance) mags"
    by (intro nth_equalityI) simp_all
  finally have f: "fold (\<lambda>i acc. acc[i := peak_entry sim tolerance (mags ! i)]) [0..<length mags]
          (replicate (length mags) Zero) = map (peak_entry sim tolerance) mags" .
  have "\<forall>i\<in>set [0..<length mags].
          \<forall>j\<in>set (np_where (deviations (magnitudes sim) (mags ! i)) tolerance).
             j < length (hkls sim)"
    using assms by auto
  then show ?thesis
    unfolding index_peaks_def by (simp only: index_loop_fold f)
qed

lemma index_peaks_entries:
  assumes "length (magnitudes sim) \<le> length (hkls sim)"
  shows "index_peaks mags sim tolerance = Inr (map (peak_entry sim tolerance) mags)"
proof (rule index_peaks_entries_gen, intro ballI)
  fix m j
  assume "j \<in> set (np_where (deviations (magnitudes sim) m) tolerance)"
  then have "j < length (magnitudes sim)"
    using np_where_bound [of j "deviations (magnitudes sim) m" tolerance] by simp
  with assms show "j < length (hkls sim)" by simp
qed

lemma np_less_trans: "np_less a b \<Longrightarrow> np_less b c \<Longrightarrow> np_less a c"
  by (cases a; cases b; cases c) auto

lemma np_less_le_trans: "np_less a b \<Longrightarrow> np_le b c \<Longrightarrow> np_less a c"
  by (cases a; cases b; cases c) auto

lemma deviation_not_negative: "\<not> np_less (deviation s m) (Fin 0)"
proof -
  have "\<not> np_less (np_absolute x) (Fin 0)" for x
    by (cases x) auto
  then show ?thesis by (simp add: deviation_def)
qed

lemma deviation_eq_spec:
  "\<not> np_less m (Fin 0) \<Longrightarrow> deviation s m = spec_deviation s m"
proof (cases m)
  case (Fin b)
  assume "\<not> np_less m (Fin 0)"
  with Fin have b: "0 \<le> b" by simp
  show ?thesis
  proof (cases s)
    case (Fin a)
    have "\<bar>(a - b) / b * 100\<bar> = \<bar>a - b\<bar> / \<bar>b\<bar> * \<bar>100\<bar>"
      by (simp only: abs_mult abs_divide)
    also have "\<dots> = \<bar>a - b\<bar> / b * 100"
      using b by (simp only: abs_of_nonneg abs_numeral)
    finally have "\<bar>(a - b) / b * 100\<bar> = \<bar>a - b\<bar> / b * 100" .
    with \<open>m = Fin b\<close> Fin b show ?thesis
      by (auto simp: deviation_def spec_deviation_def)
  qed (use \<open>m = Fin b\<close> b in \<open>auto simp: deviation_def spec_deviation_def\<close>)
qed (cases s; simp add: deviation_def spec_deviation_def)+

text \<open>
  For a negative \<open>m\<close>, which is not a magnitude, the two differ: the code takes the absolute
  value of the whole quotient.
\<close>

lemma deviation_negative_magnitude:
  "deviation (Fin (- 1)) (Fin (- 2)) = Fin 50 \<and> spec_deviation (Fin (- 1)) (Fin (- 2)) = Fin (- 50)"
  by (simp add: deviation_def spec_deviation_def)

lemma deviation_zero: "deviation s (Fin 0) = PInf \<or> deviation s (Fin 0) = NaN"
  by (cases s) (auto simp: deviation_def)

lemma filter_map_nth:
  "map (\<lambda>j. f (xs ! j)) (filter (\<lambda>j. P (xs ! j)) [0..<length xs]) = map f (filter P xs)"
proof (induction xs rule: rev_induct)
  case Nil
  show ?case by simp
next
  case (snoc x xs)
  have "map (\<lambda>j. f ((xs @ [x]) ! j)) (filter (\<lambda>j. P ((xs @ [x]) ! j)) [0..<length xs])
        = map (\<lambda>j. f (xs ! j)) (filter (\<lambda>j. P (xs ! j)) [0..<length xs])"
    by (intro arg_cong2 [where f = map] ext map_cong filter_cong refl) (auto simp: nth_append)
  then show ?case using snoc by (simp add: nth_append)
qed

lemma peak_entry_zip:
  assumes len: "length (magnitudes sim) \<le> length (hkls sim)"
  shows "peak_entry sim tolerance m =
     Entry m
       (map fst (filter (\<lambda>(h, s). np_less (deviation s m) tolerance)
                   (zip (hkls sim) (magnitudes sim))))
       (map (\<lambda>(h, s). deviation s m)
          (filter (\<lambda>(h, s). np_less (deviation s m) tolerance)
             (zip (hkls sim) (magnitudes sim))))"
proof -
  let ?zs = "zip (hkls sim) (magnitudes sim)"
  let ?P = "\<lambda>(h, s). np_less (deviation s m) tolerance"
  let ?diff = "deviations (magnitudes sim) m"
  have n: "length ?zs = length (magnitudes sim)"
    using len by simp
  have idx: "np_where ?diff tolerance = filter (\<lambda>j. ?P (?zs ! j)) [0..<length ?zs]"
    unfolding np_where_def n
    by (rule filter_cong) (use len in \<open>auto simp: deviations_def\<close>)
  have "map ((!) (hkls sim)) (filter (\<lambda>j. ?P (?zs ! j)) [0..<length ?zs])
        = map (\<lambda>j. fst (?zs ! j)) (filter (\<lambda>j. ?P (?zs ! j)) [0..<length ?zs])"
    by (rule map_cong) (use len in auto)
  also have "\<dots> = map fst (filter ?P ?zs)"
    by (rule filter_map_nth)
  finally have hs: "map ((!) (hkls sim)) (np_where ?diff tolerance) = map fst (filter ?P ?zs)"
    by (simp only: idx)
  have "map ((!) ?diff) (filter (\<lambda>j. ?P (?zs ! j)) [0..<length ?zs])
        = map (\<lambda>j. (\<lambda>(h, s). deviation s m) (?zs ! j)) (filter (\<lambda>j. ?P (?zs ! j)) [0..<length ?zs])"
    by (rule map_cong) (use len in \<open>auto simp: deviations_def\<close>)
  also have "\<dots> = map (\<lambda>(h, s). deviation s m) (filter ?P ?zs)"
    by (rule filter_map_nth)
  finally have ds: "map ((!) ?diff) (np_where ?diff tolerance)
        = map (\<lambda>(h, s). deviation s m) (filter ?P ?zs)"
    by (simp only: idx)
  show ?thesis
    unfolding peak_entry_def Let_def by (simp only: hs ds)
qed

lemma spec_candidates_fst:
  "\<not> np_less m (Fin 0) \<Longrightarrow>
   map fst (spec_candidates sim m tolerance) =
   map fst (filter (\<lambda>(h, s). np_less (deviation s m) tolerance) (zip (hkls sim) (magnitudes sim)))"
  by (simp add: spec_candidates_def filter_map o_def case_prod_unfold deviation_eq_spec)

lemma spec_candidates_snd:
  "\<not> np_less m (Fin 0) \<Longrightarrow>
   map snd (spec_candidates sim m tolerance) =
   map (\<lambda>(h, s). deviation s m)
     (filter (\<lambda>(h, s). np_less (deviation s m) tolerance) (zip (hkls sim) (magnitudes sim)))"
  by (simp add: spec_candidates_def filter_map o_def case_prod_unfold deviation_eq_spec)

lemma example_entry:
  "index_peaks [Fin 2] \<lparr>magnitudes = [Fin 1.98, Fin 3], hkls = [(1, 0, 0), (1, 1, 0)]\<rparr> (Fin 2)
     = Inr [Entry (Fin 2) [(1::int, 0::int, 0::int)] [Fin 1]]"
  by (simp add: index_peaks_def deviations_def deviation_def np_where_def Let_def upt_conv_Cons)

lemma peak_entry_spec:
  assumes "length (magnitudes sim) \<le> length (hkls sim)" and "\<not> np_less m (Fin 0)"
  shows "peak_entry sim tolerance m =
     Entry m (map fst (spec_candidates sim m tolerance)) (map snd (spec_candidates sim m tolerance))"
  by (simp only: peak_entry_zip [OF assms(1)] spec_candidates_fst [OF assms(2)]
        spec_candidates_snd [OF assms(2)])

text \<open>
  Claim C1.  For a simulation table whose \<open>hkls\<close> cover its \<open>magnitudes\<close> and measured
  magnitudes that are not negative, \<open>index_peaks\<close> pairs every measured magnitude \<open>m\<close> with
  exactly the library entries whose relative percent deviation \<open>|sim_mag - m| / m * 100\<close> is
  strictly less than the tolerance, together with those deviations.  For the measured
  magnitude 2.00, the library magnitudes 1.98 (hkl 100) and 3.00 (hkl 110) and the tolerance
  2.0, only hkl 100 is returned, with deviation 1.
\<close>

theorem index_peaks_retains_within_tolerance:
  "(length (magnitudes sim) \<le> length (hkls sim) \<and> (\<forall>m\<in>set mags. \<not> np_less m (Fin 0)) \<longrightarrow>
      index_peaks mags sim tolerance =
        Inr (map (\<lambda>m. Entry m (map fst (spec_candidates sim m tolerance))
                              (map snd (spec_candidates sim m tolerance))) mags))
   \<and> index_peaks [Fin 2] \<lparr>magnitudes = [Fin 1.98, Fin 3], hkls = [(1, 0, 0), (1, 1, 0)]\<rparr> (Fin 2)
       = Inr [Entry (Fin 2) [(1::int, 0::int, 0::int)] [Fin 1]]"
proof (intro conjI impI)
  assume a: "length (magnitudes sim) \<le> length (hkls sim) \<and> (\<forall>m\<in>set mags. \<not> np_less m (Fin 0))"
  then have "map (peak_entry sim tolerance) mags =
      map (\<lambda>m. Entry m (map fst (spec_candidates sim m tolerance))
                        (map snd (spec_candidates sim m tolerance))) mags"
    by (intro map_cong refl peak_entry_spec) auto
  with a show "index_peaks mags sim tolerance =
        Inr (map (\<lambda>m. Entry m (map fst (spec_candidates sim m tolerance))
                              (map snd (spec_candidates sim m tolerance))) mags)"
    by (simp only: index_peaks_entries)
next
  show "index_peaks [Fin 2] \<lparr>magnitudes = [Fin 1.98, Fin 3], hkls = [(1, 0, 0), (1, 1, 0)]\<rparr> (Fin 2)
       = Inr [Entry (Fin 2) [(1::int, 0::int, 0::int)] [Fin 1]]"
    by (rule example_entry)
qed

theorem index_peaks_retains_within_tolerance_witness:
  "index_peaks [Fin 4, Fin 1] \<lparr>magnitudes = [Fin 1, Fin 4.04, Fin 3.98], hkls = [''a'', ''b'', ''c'']\<rparr> (Fin 2)
     = Inr [Entry (Fin 4) [''b'', ''c''] [Fin 1, Fin 0.5], Entry (Fin 1) [''a''] [Fin 0]]"
proof -
  let ?sim = "\<lparr>magnitudes = [Fin 1, Fin 4.04, Fin 3.98], hkls = [''a'', ''b'', ''c'']\<rparr>"
  have h: "length (magnitudes ?sim) \<le> length (hkls ?sim)
           \<and> (\<forall>m\<in>set [Fin 4, Fin 1]. \<not> np_less m (Fin 0))"
    by simp
  show ?thesis
    using index_peaks_retains_within_tolerance [of ?sim "[Fin 4, Fin 1]" "Fin 2", THEN conjunct1,
        rule_format, OF h]
    by (simp add: spec_candidates_def spec_deviation_def)
qed

lemma candidates_peak_entry:
  "candidates (peak_entry sim tolerance m) =
     (\<lambda>j. (hkls sim ! j, deviation (magnitudes sim ! j) m)) `
       {j. j < length (magnitudes sim) \<and> np_less (deviation (magnitudes sim ! j) m) tolerance}"
proof -
  let ?diff = "deviations (magnitudes sim) m"
  let ?idx = "np_where ?diff tolerance"
  have s: "set ?idx = {j. j < length (magnitudes sim) \<and> np_less (deviation (magnitudes sim ! j) m) tolerance}"
    by (auto simp: np_where_def deviations_def)
  have "zip (map ((!) (hkls sim)) ?idx) (map ((!) ?diff) ?idx)
        = map (\<lambda>j. (hkls sim ! j, ?diff ! j)) ?idx"
    by (simp add: zip_map_map zip_same_conv_map)
  also have "\<dots> = map (\<lambda>j. (hkls sim ! j, deviation (magnitudes sim ! j) m)) ?idx"
    by (rule map_cong) (auto simp: np_where_def deviations_def)
  finally show ?thesis
    by (simp add: peak_entry_def Let_def s)
qed

text \<open>
  Claim C6.  For \<open>tolerance1 < tolerance2\<close> and the same magnitudes and simulation table, the
  set of (hkl, deviation) candidates of every measured magnitude at \<open>tolerance1\<close> is a subset
  of the set at \<open>tolerance2\<close>.
\<close>

theorem index_peaks_tolerance_monotone:
  assumes "np_less tolerance1 tolerance2" and "length (magnitudes sim) \<le> length (hkls sim)"
  shows "\<exists>r1 r2. index_peaks mags sim tolerance1 = Inr r1 \<and> index_peaks mags sim tolerance2 = Inr r2
           \<and> length r1 = length mags \<and> length r2 = length mags
           \<and> (\<forall>i<length mags. candidates (r1 ! i) \<subseteq> candidates (r2 ! i))"
proof -
  have "candidates (peak_entry sim tolerance1 m) \<subseteq> candidates (peak_entry sim tolerance2 m)" for m
    unfolding candidates_peak_entry
    using np_less_trans [OF _ assms(1)] by (intro image_mono) blast
  then show ?thesis
    by (simp add: index_peaks_entries [OF assms(2)])
qed

theorem index_peaks_tolerance_monotone_witness:
  "\<exists>r1 r2. index_peaks [Fin 4] \<lparr>magnitudes = [Fin 4.04, Fin 3.98], hkls = [''b'', ''c'']\<rparr> (Fin 0.8) = Inr r1
     \<and> index_peaks [Fin 4] \<lparr>magnitudes = [Fin 4.04, Fin 3.98], hkls = [''b'', ''c'']\<rparr> (Fin 2) = Inr r2
     \<and> candidates (r1 ! 0) \<subseteq> candidates (r2 ! 0)
     \<and> candidates (r1 ! 0) = {(''c'', Fin 0.5)}"
proof -
  let ?sim = "\<lparr>magnitudes = [Fin 4.04, Fin 3.98], hkls = [''b'', ''c'']\<rparr>"
  have e: "index_peaks [Fin 4] ?sim (Fin 0.8) = Inr [Entry (Fin 4) [''c''] [Fin 0.5]]"
    by (simp add: index_peaks_def deviations_def deviation_def np_where_def Let_def upt_conv_Cons)
  have "np_less (Fin 0.8) (Fin 2)" and "length (magnitudes ?sim) \<le> length (hkls ?sim)"
    by simp_all
  from index_peaks_tolerance_monotone [OF this, of "[Fin 4]"] e
  show ?thesis by auto
qed

lemma np_where_nonpositive:
  assumes "np_le tolerance (Fin 0)"
  shows "np_where (deviations ms m) tolerance = []"
proof -
  have "\<not> np_less (deviation s m) tolerance" for s
    using np_less_le_trans [OF _ assms] deviation_not_negative by blast
  then show ?thesis
    by (simp add: np_where_def deviations_def filter_empty_conv)
qed

text \<open>
  Claim C7.  With a tolerance that is at most 0, \<open>index_peaks\<close> returns no match for any
  measured magnitude: every cell holds the magnitude with empty lists, so in particular no
  library entry with a non-zero deviation is retained.
\<close>

theorem index_peaks_nonpositive_tolerance:
  assumes "np_le tolerance (Fin 0)"
  shows "index_peaks mags sim tolerance = Inr (map (\<lambda>m. Entry m [] []) mags)"
proof -
  have "peak_entry sim tolerance m = Entry m [] []" for m
    by (simp add: peak_entry_def Let_def np_where_nonpositive [OF assms])
  then have "map (peak_entry sim tolerance) mags = map (\<lambda>m. Entry m [] []) mags"
    by simp
  moreover have "index_peaks mags sim tolerance = Inr (map (peak_entry sim tolerance) mags)"
    by (rule index_peaks_entries_gen) (simp add: np_where_nonpositive [OF assms])
  ultimately show ?thesis by simp
qed

theorem index_peaks_nonpositive_tolerance_witness:
  "np_le (Fin 0) (Fin 0) \<and>
   index_peaks [Fin 2, Fin 3] \<lparr>magnitudes = [Fin 2, Fin 3.03], hkls = [''a'', ''b'']\<rparr> (Fin 0)
     = Inr [Entry (Fin 2) [] [], Entry (Fin 3) [] []]"
proof -
  have h: "np_le (Fin 0) (Fin 0)" by simp
  show ?thesis
    using h index_peaks_nonpositive_tolerance [OF h, of "[Fin 2, Fin 3]"
        "\<lparr>magnitudes = [Fin 2, Fin 3.03], hkls = [''a'', ''b'']\<rparr>"]
    by simp
qed

text \<open>
  Claim C8, as stated, fails.  Line 166 divides by the measured magnitude without a guard:
  for the magnitude 0 the deviations are \<open>inf\<close> and, against the library magnitude 0,
  \<open>nan\<close>.  The peak is not left out of the result, and no absolute error is used in place of
  the relative one: the library magnitudes 0.001 and 0 lie within an absolute error of 1 of
  the measured 0, and neither is retained.
\<close>

theorem index_peaks_zero_magnitude_unguarded:
  "deviations [Fin 0.001, Fin 0] (Fin 0) = [PInf, NaN] \<and>
   index_peaks [Fin 0] \<lparr>magnitudes = [Fin 0.001, Fin 0], hkls = [(1, 0, 0), (0, 0, 0)]\<rparr> (Fin 1)
     = Inr [Entry (Fin 0) [] ([] :: npfloat list) :: (int \<times> int \<times> int) entry]"
  by (simp add: index_peaks_def deviations_def deviation_def np_where_def Let_def upt_conv_Cons)

lemma np_where_zero_magnitude: "np_where (deviations ms (Fin 0)) tolerance = []"
proof -
  have "\<not> np_less (deviation s (Fin 0)) tolerance" for s
    using deviation_zero [of s] by (cases tolerance) auto
  then show ?thesis
    by (simp add: np_where_def deviations_def filter_empty_conv)
qed

text \<open>
  Claim C8, amended.  A zero measured magnitude does not make \<open>index_peaks\<close> raise.  Its
  deviations are all \<open>inf\<close> or \<open>nan\<close>, none of which is strictly less than any tolerance, so
  the cell of that peak holds the magnitude 0 with no candidates, and the result still has
  one cell per measured magnitude.
\<close>

theorem index_peaks_zero_magnitude:
  assumes "length (magnitudes sim) \<le> length (hkls sim)"
    and "i < length mags" and "mags ! i = Fin 0"
  shows "\<exists>res. index_peaks mags sim tolerance = Inr res \<and> length res = length mags
           \<and> res ! i = Entry (Fin 0) [] []
           \<and> (\<forall>s\<in>set (magnitudes sim). \<not> is_finite (deviation s (Fin 0)))"
proof -
  have "peak_entry sim tolerance (Fin 0) = Entry (Fin 0) [] []"
    by (simp add: peak_entry_def Let_def np_where_zero_magnitude)
  moreover have "\<not> is_finite (deviation s (Fin 0))" for s
    using deviation_zero [of s] by auto
  ultimately show ?thesis
    using assms by (simp add: index_peaks_entries)
qed

theorem index_peaks_zero_magnitude_witness:
  "\<exists>res. index_peaks [Fin 2, Fin 0] \<lparr>magnitudes = [Fin 1.98, Fin 0], hkls = [''a'', ''b'']\<rparr> (Fin 2) = Inr res
     \<and> res = [Entry (Fin 2) [''a''] [Fin 1], Entry (Fin 0) [] []]"
proof -
  let ?sim = "\<lparr>magnitudes = [Fin 1.98, Fin 0], hkls = [''a'', ''b'']\<rparr>"
  let ?mags = "[Fin 2, Fin 0]"
  have h: "length (magnitudes ?sim) \<le> length (hkls ?sim)" "(1::nat) < length ?mags" "?mags ! 1 = Fin 0"
    by simp_all
  have e: "index_peaks ?mags ?sim (Fin 2) = Inr [Entry (Fin 2) [''a''] [Fin 1], Entry (Fin 0) [] []]"
    by (simp add: index_peaks_def deviations_def deviation_def np_where_def Let_def upt_conv_Cons)
  from index_peaks_zero_magnitude [OF h, of "Fin 2"] e show ?thesis by simp
qed

text \<open>
  Claim C10.  \<open>index_peaks\<close> returns one cell per measured magnitude, in the input order:
  cell \<open>i\<close> pairs the \<open>i\<close>-th magnitude with the hkls and deviations of the qualifying
  library entries, which appear in the order of the simulation's magnitude table (their
  indices are strictly increasing, and are exactly the indices whose deviation is below the
  tolerance).
\<close>

theorem index_peaks_one_entry_per_magnitude:
  assumes "length (magnitudes sim) \<le> length (hkls sim)"
  shows "\<exists>res. index_peaks mags sim tolerance = Inr res \<and> length res = length mags \<and>
     (\<forall>i<length mags. \<exists>js.
        res ! i = Entry (mags ! i) (map ((!) (hkls sim)) js)
                    (map (\<lambda>j. deviation (magnitudes sim ! j) (mags ! i)) js)
        \<and> sorted_wrt (<) js
        \<and> set js = {j. j < length (magnitudes sim)
                        \<and> np_less (deviation (magnitudes sim ! j) (mags ! i)) tolerance})"
proof -
  have "\<exists>js. peak_entry sim tolerance m = Entry m (map ((!) (hkls sim)) js)
                    (map (\<lambda>j. deviation (magnitudes sim ! j) m) js)
        \<and> sorted_wrt (<) js
        \<and> set js = {j. j < length (magnitudes sim)
                        \<and> np_less (deviation (magnitudes sim ! j) m) tolerance}" for m
  proof -
    let ?diff = "deviations (magnitudes sim) m"
    let ?js = "np_where ?diff tolerance"
    have "map ((!) ?diff) ?js = map (\<lambda>j. deviation (magnitudes sim ! j) m) ?js"
      by (rule map_cong) (auto simp: np_where_def deviations_def)
    then have "peak_entry sim tolerance m = Entry m (map ((!) (hkls sim)) ?js)
                    (map (\<lambda>j. deviation (magnitudes sim ! j) m) ?js)"
      by (simp add: peak_entry_def Let_def)
    moreover have "sorted_wrt (<) ?js"
      unfolding np_where_def by (intro sorted_wrt_filter) simp
    moreover have "set ?js = {j. j < length (magnitudes sim)
                        \<and> np_less (deviation (magnitudes sim ! j) m) tolerance}"
      by (auto simp: np_where_def deviations_def)
    ultimately show ?thesis by blast
  qed
  then show ?thesis
    by (simp add: index_peaks_entries [OF assms])
qed

theorem index_peaks_one_entry_per_magnitude_witness:
  "\<exists>res. index_peaks [Fin 4, Fin 1] \<lparr>magnitudes = [Fin 1, Fin 4.04, Fin 3.98], hkls = [''a'', ''b'', ''c'']\<rparr> (Fin 2) = Inr res
     \<and> length res = 2
     \<and> res = [Entry (Fin 4) [''b'', ''c''] [Fin 1, Fin 0.5], Entry (Fin 1) [''a''] [Fin 0]]"
proof -
  let ?sim = "\<lparr>magnitudes = [Fin 1, Fin 4.04, Fin 3.98], hkls = [''a'', ''b'', ''c'']\<rparr>"
  have h: "length (magnitudes ?sim) \<le> length (hkls ?sim)" by simp
  have e: "index_peaks [Fin 4, Fin 1] ?sim (Fin 2)
     = Inr [Entry (Fin 4) [''b'', ''c''] [Fin 1, Fin 0.5], Entry (Fin 1) [''a''] [Fin 0]]"
    by (simp add: index_peaks_def deviations_def deviation_def np_where_def Let_def upt_conv_Cons)
  from index_peaks_one_entry_per_magnitude [OF h, of "[Fin 4, Fin 1]" "Fin 2"] e
  show ?thesis by simp
qed

section \<open>Properties of correlate and index_vectors\<close>

lemma collect_Inr:
  "collect xs = Inr rs \<Longrightarrow> length rs = length xs \<and> (\<forall>i<length xs. xs ! i = Inr (rs ! i))"
proof (induction xs arbitrary: rs)
  case Nil
  then show ?case by simp
next
  case (Cons x xs)
  then obtain r rs' where x: "x = Inr r" and c: "collect xs = Inr rs'" and rs: "rs = r # rs'"
    by (auto split: sum.splits)
  from Cons.IH [OF c] have "length rs' = length xs" and n: "\<forall>i<length xs. xs ! i = Inr (rs' ! i)"
    by simp_all
  then show ?case
    using x rs by (auto simp: nth_Cons split: nat.splits)
qed

lemma copy_calibration_old [simp]: "copy_calibration a b = b"
  by (simp add: copy_calibration_def)

lemma transfer_new_results:
  "length (navigation_axes matches) = length (navigation_axes old) \<Longrightarrow>
   res_axes (transfer_navigation_axes (new_results matches) old) = navigation_axes old"
  by (intro nth_equalityI) (simp_all add: transfer_navigation_axes_def new_results_def)

lemma res_data_transfer [simp]:
  "res_data (transfer_navigation_axes (new_results matches) old) = sig_data matches"
  by (simp add: transfer_navigation_axes_def new_results_def)

lemma signal_map_mask_Inr:
  assumes "signal_map_mask f s m = Inr matches"
  shows "navigation_axes matches = navigation_axes s"
    and "length (items m) = length (sig_data s)"
    and "length (sig_data matches) = length (sig_data s)"
    and "\<forall>p<length (sig_data s). f (sig_data s ! p) (items m ! p) = Inr (sig_data matches ! p)"
proof -
  from assms have len: "length (items m) = length (sig_data s)"
    by (auto simp: signal_map_mask_def split: if_splits)
  from assms len obtain rs where c: "collect (map2 f (sig_data s) (items m)) = Inr rs"
    and m: "matches = \<lparr>navigation_shape = navigation_shape s, navigation_axes = navigation_axes s,
                    sig_data = rs\<rparr>"
    by (auto simp: signal_map_mask_def split: sum.splits)
  from collect_Inr [OF c] len
  have l: "length rs = length (sig_data s)"
    and n: "\<forall>p<length (sig_data s). f (sig_data s ! p) (items m ! p) = Inr (rs ! p)"
    by simp_all
  show "navigation_axes matches = navigation_axes s" using m by simp
  show "length (items m) = length (sig_data s)" by (rule len)
  show "length (sig_data matches) = length (sig_data s)" using m l by simp
  show "\<forall>p<length (sig_data s). f (sig_data s ! p) (items m ! p) = Inr (sig_data matches ! p)"
    using m n by simp
qed

lemma correlate_Some_Inr:
  assumes "correlate correlation sgnl lib n_largest keys (Some m) = Inr res"
  shows "res_axes res = navigation_axes sgnl"
    and "length (res_data res) = length (sig_data sgnl)"
    and "\<forall>p<length (sig_data sgnl).
           correlate_library correlation lib n_largest keys (sig_data sgnl ! p) (items m ! p)
             = Inr (res_data res ! p)"
proof -
  from assms obtain matches where
    sm: "signal_map_mask (correlate_library correlation lib n_largest keys) sgnl m = Inr matches"
    and res: "res = transfer_navigation_axes (new_results matches) sgnl"
    by (auto simp: correlate_def split: sum.splits)
  note f = signal_map_mask_Inr [OF sm]
  show "res_axes res = navigation_axes sgnl"
    unfolding res using f(1) by (intro transfer_new_results) simp
  show "length (res_data res) = length (sig_data sgnl)"
    unfolding res using f(3) by simp
  show "\<forall>p<length (sig_data sgnl).
           correlate_library correlation lib n_largest keys (sig_data sgnl ! p) (items m ! p)
             = Inr (res_data res ! p)"
    unfolding res using f(4) by simp
qed

lemma correlate_None:
  "correlate correlation sgnl lib n_largest keys None =
     (case default_mask (navigation_shape sgnl) of
        Inl e \<Rightarrow> Inl e
      | Inr m \<Rightarrow> correlate correlation sgnl lib n_largest keys (Some m))"
  by (simp add: correlate_def split: sum.splits)

lemma correlate_Inr:
  assumes "correlate correlation sgnl lib n_largest keys mask' = Inr res"
  obtains m where "correlate correlation sgnl lib n_largest keys (Some m) = Inr res"
  using assms by (cases mask') (auto simp: correlate_None split: sum.splits)







lemma correlate_keeps_axes:
  assumes "correlate correlation sgnl lib n_largest keys mask' = Inr res"
  shows "res_axes res = navigation_axes sgnl"
proof -
  from assms obtain m where "correlate correlation sgnl lib n_largest keys (Some m) = Inr res"
    by (rule correlate_Inr)
  then show ?thesis by (rule correlate_Some_Inr(1))
qed

text \<open>
  Claim C2.  \<open>index_vectors\<close> returns no indexation results for any vectors and any
  matcher: when the map over the navigation positions succeeds, line 239 evaluates the name
  \<open>VectorMatchingResults\<close>, which the module never binds, and the call ends with
  \<open>NameError\<close>; otherwise it ends with the error of the map.
\<close>

theorem index_vectors_name_error:
  "index_vectors match_vectors vectors =
     Inl (case signal_map match_vectors vectors of Inl e \<Rightarrow> e | Inr indexation \<Rightarrow> NameError)"
  by (simp add: index_vectors_def load_global_def module_globals_def split: sum.splits)



text \<open>
  Claim C4.  At a position where the supplied mask is 0, \<open>correlate\<close> produces \<open>n_largest\<close>
  zero-filled records and computes no correlation there.
\<close>

theorem correlate_masked_position:
  assumes "correlate correlation sgnl lib n_largest keys (Some m) = Inr res"
    and "p < length (sig_data sgnl)" and "items m ! p = 0"
  shows "res_data res ! p = (replicate (nat n_largest) zero_record, 0)"
proof -
  from correlate_Some_Inr(3) [OF assms(1)] assms(2,3)
  have "correlate_library correlation lib n_largest keys (sig_data sgnl ! p) 0 = Inr (res_data res ! p)"
    by auto
  then show ?thesis
    by (auto simp: correlate_library_def split: if_splits)
qed


lemma example_scored:
  "correlate_library (\<lambda>i p :: nat. if i = p then 1 else 1 / 2 :: real)
     [[((0, 0, 0), 3 :: nat)], [((0, 0, 90), 2)]] 3 [] (2::nat) 1
   = Inr ([\<lparr>phase_index = 1, euler_z1 = 0, euler_x = 0, euler_z2 = 90, score = 1\<rparr>,
           \<lparr>phase_index = 0, euler_z1 = 0, euler_x = 0, euler_z2 = 0, score = 1 / 2\<rparr>,
           zero_record], 2)"
  by (simp add: correlate_library_def library_entries_def score_entry_def
        pad_records_def Let_def numeral_3_eq_3)

lemma example_masked:
  "correlate_library (\<lambda>i p :: nat. if i = p then 1 else 1 / 2 :: real)
     [[((0, 0, 0), 3 :: nat)], [((0, 0, 90), 2)]] 3 [] (3::nat) 0
   = Inr ([zero_record, zero_record, zero_record], 0)"
  by (simp add: correlate_library_def library_entries_def numeral_3_eq_3)

lemma example_correlate:
  "correlate (\<lambda>i p :: nat. if i = p then 1 else 1 / 2 :: real)
     \<lparr>navigation_shape = [2], navigation_axes = axes, sig_data = [2, 3 :: nat]\<rparr>
     [[((0, 0, 0), 3 :: nat)], [((0, 0, 90), 2)]] 3 [] (Some \<lparr>shape = [2], items = [1, 0]\<rparr>)
   = Inr (transfer_navigation_axes
       (new_results \<lparr>navigation_shape = [2], navigation_axes = axes,
          sig_data =
            [([\<lparr>phase_index = 1, euler_z1 = 0, euler_x = 0, euler_z2 = 90, score = 1\<rparr>,
               \<lparr>phase_index = 0, euler_z1 = 0, euler_x = 0, euler_z2 = 0, score = 1 / 2\<rparr>,
               zero_record], 2 :: nat),
             ([zero_record, zero_record, zero_record], 0)]\<rparr>)
       \<lparr>navigation_shape = [2], navigation_axes = axes, sig_data = [2, 3 :: nat]\<rparr>)"
  by (simp add: correlate_def signal_map_mask_def example_scored example_masked)


theorem correlate_masked_position_witness:
  "\<exists>res. correlate (\<lambda>i p. if i = p then 1 else 1 / 2)
            \<lparr>navigation_shape = [2], navigation_axes = [default_axis], sig_data = [2, 3 :: nat]\<rparr>
            [[((0, 0, 0), 3 :: nat)], [((0, 0, 90), 2)]] 3 []
            (Some \<lparr>shape = [2], items = [1, 0]\<rparr>) = Inr res
        \<and> res_data res ! 1 = ([zero_record, zero_record, zero_record], 0)
        \<and> snd (res_data res ! 0) = 2"
proof -
  let ?s = "\<lparr>navigation_shape = [2], navigation_axes = [default_axis], sig_data = [2, 3 :: nat]\<rparr>"
  let ?m = "\<lparr>shape = [2], items = [1, 0]\<rparr>"
  note e = example_correlate [of "[default_axis]"]
  have h: "(1::nat) < length (sig_data ?s)" "items ?m ! 1 = 0" by simp_all
  from correlate_masked_position [OF e h] e show ?thesis
    by (simp add: numeral_3_eq_3)
qed


text \<open>
  Claim C5.  For a signal whose navigation axis is calibrated (name x, scale 0.5, offset 1,
  units nm), \<open>index_vectors\<close> ends with \<open>NameError\<close> and returns no result that could carry
  the calibration, while \<open>correlate\<close> on a signal with the same axis returns results whose
  navigation axes are that axis, unchanged.
\<close>

theorem index_vectors_loses_calibration:
  "index_vectors (\<lambda>v. Inr (length v))
     \<lparr>navigation_shape = [2],
      navigation_axes = [\<lparr>ax_name = ''x'', ax_scale = 1 / 2, ax_offset = 1, ax_units = ''nm''\<rparr>],
      sig_data = [[(1 :: int, 0 :: int), (0, 1)], [(1, 1)]]\<rparr>
   = Inl NameError
   \<and> (\<exists>res. correlate (\<lambda>i p. if i = p then 1 else 1 / 2)
        \<lparr>navigation_shape = [2],
         navigation_axes = [\<lparr>ax_name = ''x'', ax_scale = 1 / 2, ax_offset = 1, ax_units = ''nm''\<rparr>],
         sig_data = [2, 3 :: nat]\<rparr>
        [[((0, 0, 0), 3 :: nat)], [((0, 0, 90), 2)]] 3 [] (Some \<lparr>shape = [2], items = [1, 0]\<rparr>)
        = Inr res
      \<and> res_axes res = [\<lparr>ax_name = ''x'', ax_scale = 1 / 2, ax_offset = 1, ax_units = ''nm''\<rparr>])"
proof
  show "index_vectors (\<lambda>v. Inr (length v))
     \<lparr>navigation_shape = [2],
      navigation_axes = [\<lparr>ax_name = ''x'', ax_scale = 1 / 2, ax_offset = 1, ax_units = ''nm''\<rparr>],
      sig_data = [[(1 :: int, 0 :: int), (0, 1)], [(1, 1)]]\<rparr>
   = Inl NameError"
    by (simp add: index_vectors_def signal_map_def load_global_def module_globals_def)
next
  let ?ax = "\<lparr>ax_name = ''x'', ax_scale = 1 / 2, ax_offset = 1, ax_units = ''nm''\<rparr>"
  note e = example_correlate [of "[?ax]"]
  from correlate_keeps_axes [OF e] e
  show "\<exists>res. correlate (\<lambda>i p. if i = p then 1 else 1 / 2)
        \<lparr>navigation_shape = [2], navigation_axes = [?ax], sig_data = [2, 3 :: nat]\<rparr>
        [[((0, 0, 0), 3 :: nat)], [((0, 0, 90), 2)]] 3 [] (Some \<lparr>shape = [2], items = [1, 0]\<rparr>)
        = Inr res \<and> res_axes res = [?ax]"
    by simp
qed

end
